theory Spec2Isabelle
  imports Main
begin

section \<open>Machine integers\<close>

text \<open>
  Terms and log indices are Go \<open>uint64\<close> values. They are modelled as naturals; every
  addition of the source that can overflow is written with \<open>u64\<close>, which wraps at
  \<open>2 ^ 64\<close> as the Go addition does.
\<close>

definition u64 :: "nat \<Rightarrow> nat" where
  "u64 n = n mod 2 ^ 64"

section \<open>Data model\<close>

text \<open>
  \<open>ServerRole\<close> is declared outside the files at hand. Modelled from the spec: the
  role is one of Follower, Candidate, Leader, ordered so that stepdown is always to a
  lower role; \<open>roleRank\<close> is that order.
\<close>

datatype ServerRole = Follower | Candidate | Leader

fun roleRank :: "ServerRole \<Rightarrow> nat" where
  "roleRank Follower = 0"
| "roleRank Candidate = 1"
| "roleRank Leader = 2"

datatype LogType = COMMAND | CONFIGURATION

record LogMeta =
  Index_meta :: nat
  Term_meta :: nat

record LogBody =
  Type_body :: LogType
  Data_body :: string

record Log =
  Meta_log :: LogMeta
  Body_log :: LogBody

record Peer =
  Id_peer :: string
  Endpoint_peer :: string

text \<open>\<open>pb.Configuration\<close>: the current peer list and the optional next one.\<close>

record pbConfiguration =
  Current_pb :: "Peer list"
  Next_pb :: "Peer list option"

text \<open>
  The protobuf encoding of a configuration is an external library; it is a parameter
  of the model.
\<close>

record protoCodec =
  Marshal :: "pbConfiguration \<Rightarrow> string"
  Unmarshal :: "string \<Rightarrow> pbConfiguration option"

text \<open>
  Modelled from the spec: the configuration type of the configuration store is not among
  the files at hand. A configuration is a pair (current, next?) of peer sets that
  carries the log index at which it was appended; it is joint when next is present; a
  quorum is a strict majority of a peer set; a peer is identified by its id.
\<close>

record configuration =
  Current_conf :: "Peer list"
  Next_conf :: "Peer list option"
  LogIndex_conf :: nat

definition newConfiguration :: "pbConfiguration \<Rightarrow> nat \<Rightarrow> configuration" where
  "newConfiguration pbc idx =
     \<lparr>Current_conf = Current_pb pbc, Next_conf = Next_pb pbc, LogIndex_conf = idx\<rparr>"

definition Joint :: "configuration \<Rightarrow> bool" where
  "Joint c = (Next_conf c \<noteq> None)"

definition NextConfig :: "configuration \<Rightarrow> Peer list" where
  "NextConfig c = (case Next_conf c of None \<Rightarrow> [] | Some ps \<Rightarrow> ps)"

definition Contains :: "Peer list \<Rightarrow> string \<Rightarrow> bool" where
  "Contains ps i = (i \<in> set (map Id_peer ps))"

definition Quorum :: "Peer list \<Rightarrow> nat" where
  "Quorum ps = length ps div 2 + 1"

definition Peers :: "configuration \<Rightarrow> Peer list" where
  "Peers c = Current_conf c @ filter (\<lambda>p. \<not> Contains (Current_conf c) (Id_peer p)) (NextConfig c)"

definition Peer_of :: "configuration \<Rightarrow> string \<Rightarrow> Peer option" where
  "Peer_of c i = find (\<lambda>p. Id_peer p = i) (Peers c)"

record voteSummary =
  term_vote :: nat
  candidate_vote :: string

text \<open>
  The server. The embedded \<open>serverState\<close> and \<open>commitState\<close>, the stable store, the
  log store and the configuration store are fields of one record; channels are the
  lists of the values waiting in them. \<open>endpoint_srv\<close> is what the transport's
  \<open>Endpoint()\<close> returns, \<open>smApplied\<close> the commands handed to the state machine, in
  order. \<open>clusterLeader = None\<close> stands for the \<open>nilPeer\<close> sentinel.
  \<open>stateFirstLogIndex\<close> and \<open>stateLastLogIndex\<close> are the log indices the server
  state keeps beside the log store: they are what \<open>lastLogIndex()\<close> reads, and they
  change only where the code sets them.
\<close>

record Server =
  id_srv :: string
  endpoint_srv :: string
  serveFlag :: nat
  stateRole :: ServerRole
  stateCurrentTerm :: nat
  stateLastVoteSummary :: voteSummary
  clusterLeader :: "Peer option"
  logStore :: "Log list"
  stateFirstLogIndex :: nat
  stateLastLogIndex :: nat
  stateCommitIndex :: nat
  stateLastApplied :: LogMeta
  commitCh :: "nat list"
  logOpsCh :: "LogBody list list"
  confLatest :: configuration
  confCommitted :: configuration
  smApplied :: "string list"
  flagReselectLoop :: nat

datatype panic =
    NilPointerDereference
  | PanicStepdownBelowFollower
  | PanicLastAppliedAboveCommit
  | PanicLogGap
  | PanicSameIdDifferentEndpoints
  | PanicNotInPeerList
  | PanicBootstrap
  | PanicIndexOutOfRange

section \<open>Log store\<close>

text \<open>
  Modelled from the spec: the log store is not among the files at hand. It owns a range
  of indexed entries; reads (entry, last index, last term and index) are direct;
  \<open>DeleteAfter i\<close> truncates the suffix starting at index \<open>i\<close>; an append puts
  the given entries at the end. The first and the last index of an empty store are 0.
\<close>

definition Entry :: "Log list \<Rightarrow> nat \<Rightarrow> Log option" where
  "Entry st i = find (\<lambda>l. Index_meta (Meta_log l) = i) st"

definition FirstIndex :: "Log list \<Rightarrow> nat" where
  "FirstIndex st = (if st = [] then 0 else Index_meta (Meta_log (hd st)))"

definition LastIndex :: "Log list \<Rightarrow> nat" where
  "LastIndex st = (if st = [] then 0 else Index_meta (Meta_log (last st)))"

definition LastTermIndex :: "Log list \<Rightarrow> nat \<times> nat" where
  "LastTermIndex st =
     (if st = [] then (0, 0)
      else (Term_meta (Meta_log (last st)), Index_meta (Meta_log (last st))))"

definition DeleteAfter :: "Log list \<Rightarrow> nat \<Rightarrow> Log list" where
  "DeleteAfter st i = filter (\<lambda>l. Index_meta (Meta_log l) < i) st"

definition AppendLogs :: "Log list \<Rightarrow> Log list \<Rightarrow> Log list" where
  "AppendLogs st logs = st @ logs"

section \<open>Server state accessors and mutators\<close>

text \<open>
  \<open>lastLogIndex()\<close> reads the index kept in the server state, not the log store.
\<close>

definition lastLogIndex :: "Server \<Rightarrow> nat" where
  "lastLogIndex s = stateLastLogIndex s"

definition setFirstLogIndex :: "Server \<Rightarrow> nat \<Rightarrow> Server" where
  "setFirstLogIndex s i = s\<lparr>stateFirstLogIndex := i\<rparr>"

definition setLastLogIndex :: "Server \<Rightarrow> nat \<Rightarrow> Server" where
  "setLastLogIndex s i = s\<lparr>stateLastLogIndex := i\<rparr>"

definition nilPeer :: Peer where
  "nilPeer = \<lparr>Id_peer = [], Endpoint_peer = []\<rparr>"

definition Server_Leader :: "Server \<Rightarrow> Peer" where
  "Server_Leader s = (case clusterLeader s of None \<Rightarrow> nilPeer | Some p \<Rightarrow> p)"

definition setLeader :: "Server \<Rightarrow> Peer option \<Rightarrow> Server" where
  "setLeader s leader = s\<lparr>clusterLeader := leader\<rparr>"

definition alterLeader :: "Server \<Rightarrow> Peer option \<Rightarrow> Server" where
  "alterLeader s leader = setLeader s leader"

definition alterRole :: "Server \<Rightarrow> ServerRole \<Rightarrow> Server" where
  "alterRole s r = s\<lparr>stateRole := r\<rparr>"

definition alterTerm :: "Server \<Rightarrow> nat \<Rightarrow> Server" where
  "alterTerm s t = s\<lparr>stateCurrentTerm := t\<rparr>"

definition alterCommitIndex :: "Server \<Rightarrow> nat \<Rightarrow> Server" where
  "alterCommitIndex s c = s\<lparr>commitCh := commitCh s @ [c]\<rparr>"

definition alterConfiguration :: "Server \<Rightarrow> configuration \<Rightarrow> Server" where
  "alterConfiguration s c = s\<lparr>confLatest := c\<rparr>"

definition reselectLoop :: "Server \<Rightarrow> Server" where
  "reselectLoop s = s\<lparr>flagReselectLoop := 1\<rparr>"

definition shouldReselectLoop :: "Server \<Rightarrow> bool" where
  "shouldReselectLoop s = (flagReselectLoop s \<noteq> 0)"

definition setLastVoteSummary :: "Server \<Rightarrow> nat \<Rightarrow> string \<Rightarrow> Server" where
  "setLastVoteSummary s t c =
     s\<lparr>stateLastVoteSummary := \<lparr>term_vote = t, candidate_vote = c\<rparr>\<rparr>"

definition stepdownFollower :: "Server \<Rightarrow> Peer option \<Rightarrow> panic + Server" where
  "stepdownFollower s leader =
     (if roleRank (stateRole s) < roleRank Follower then Inl PanicStepdownBelowFollower
      else Inr ((setLeader s leader)\<lparr>stateRole := Follower\<rparr>))"

section \<open>RequestVote\<close>

record RequestVoteRequest =
  Term_rv :: nat
  CandidateId_rv :: string
  LastLogIndex_rv :: nat
  LastLogTerm_rv :: nat

record RequestVoteResponse =
  ServerId_rvr :: string
  Term_rvr :: nat
  Granted_rvr :: bool



section \<open>Properties of RequestVote\<close>





section \<open>AppendEntries\<close>

record AppendEntriesRequest =
  Term_ae :: nat
  LeaderId_ae :: string
  PrevLogIndex_ae :: nat
  PrevLogTerm_ae :: nat
  Entries_ae :: "Log list"
  LeaderCommit_ae :: nat

record AppendEntriesResponse =
  ServerId_aer :: string
  Term_aer :: nat
  Success_aer :: bool

text \<open>
  The loop of \<open>appendLogs\<close> that builds the entries to store: body \<open>i\<close> gets the index
  \<open>lastLogIndex + 1 + i\<close> and the server's current term.
\<close>

fun buildLogs :: "nat \<Rightarrow> nat \<Rightarrow> nat \<Rightarrow> LogBody list \<Rightarrow> Log list" where
  "buildLogs lli t i [] = []"
| "buildLogs lli t i (body # bodies) =
     \<lparr>Meta_log = \<lparr>Index_meta = u64 (lli + 1 + i), Term_meta = t\<rparr>, Body_log = body\<rparr>
       # buildLogs lli t (Suc i) bodies"

text \<open>The entry at \<open>lastConfArrayIndex\<close>: the last built entry of type CONFIGURATION.\<close>

definition lastConfLog :: "Log list \<Rightarrow> Log option" where
  "lastConfLog logs =
     (case filter (\<lambda>l. Type_body (Body_log l) = CONFIGURATION) logs of
        [] \<Rightarrow> None
      | c # cs \<Rightarrow> Some (last (c # cs)))"

datatype appendError = ErrUnmarshal

text \<open>
  \<open>appendLogs\<close> returns the server after the call and either the error (not fatal: the
  log and the kept indices are left as they were) or the metadata of the stored
  entries. The entries are stamped from the last index kept in the server state. Once
  the store has taken them, the kept first and last index are read again from the
  store, and only there; then the configuration found among the entries, if there is
  one, is made the latest.
\<close>

definition appendLogs ::
  "protoCodec \<Rightarrow> Server \<Rightarrow> LogBody list \<Rightarrow> Server \<times> (appendError + LogMeta list)" where
  "appendLogs pc s bodies =
     (let lli = lastLogIndex s;
          t = stateCurrentTerm s;
          logs = buildLogs lli t 0 bodies;
          logMeta = map Meta_log logs
      in case (case lastConfLog logs of
                 None \<Rightarrow> Inr None
               | Some l \<Rightarrow>
                   (case Unmarshal pc (Data_body (Body_log l)) of
                      None \<Rightarrow> Inl ErrUnmarshal
                    | Some pbc \<Rightarrow> Inr (Some (newConfiguration pbc (Index_meta (Meta_log l)))))) of
           Inl err \<Rightarrow> (s, Inl err)
         | Inr conf \<Rightarrow>
             (let s1 = s\<lparr>logStore := AppendLogs (logStore s) logs\<rparr>;
                  s2 = setFirstLogIndex s1 (FirstIndex (logStore s1));
                  s3 = setLastLogIndex s2 (LastIndex (logStore s2))
              in case conf of
                   None \<Rightarrow> (s3, Inr logMeta)
                 | Some c \<Rightarrow> (reselectLoop (alterConfiguration s3 c), Inr logMeta)))"

text \<open>
  The conflict scan of the handler over the incoming entries. The third argument is
  \<open>firstAppendArrayIndex\<close>; the result is (firstAppendArrayIndex, firstCleanUpIndex).
  Reading the term of a local entry that the store does not hold dereferences nil.
\<close>

fun scanEntries :: "Log list \<Rightarrow> nat \<Rightarrow> nat \<Rightarrow> Log list \<Rightarrow> panic + (nat \<times> nat)" where
  "scanEntries st lli fa [] = Inr (fa, 0)"
| "scanEntries st lli fa (e # es) =
     (if Index_meta (Meta_log e) > lli then Inr (fa, 0)
      else case Entry st (Index_meta (Meta_log e)) of
             None \<Rightarrow> Inl NilPointerDereference
           | Some l \<Rightarrow>
               if Term_meta (Meta_log l) \<noteq> Term_meta (Meta_log e)
               then Inr (fa, Index_meta (Meta_log l))
               else scanEntries st lli (Suc fa) es)"

text \<open>Lines 57 to 70: the leader pointer and the adoption of a higher term.\<close>

definition ae_adoptTerm ::
  "Server \<Rightarrow> AppendEntriesRequest \<Rightarrow> AppendEntriesResponse
     \<Rightarrow> panic + (Server \<times> AppendEntriesResponse)" where
  "ae_adoptTerm s request response =
     (let s1 = (if Id_peer (Server_Leader s) \<noteq> LeaderId_ae request
                then alterLeader s (Peer_of (confLatest s) (LeaderId_ae request)) else s)
      in if Term_ae request > stateCurrentTerm s1 then
           (case (if stateRole s1 \<noteq> Follower
                  then stepdownFollower s1 (Peer_of (confLatest s1) (LeaderId_ae request))
                  else Inr s1) of
              Inl p \<Rightarrow> Inl p
            | Inr s2 \<Rightarrow>
                let s3 = alterTerm s2 (Term_ae request)
                in Inr (s3, response\<lparr>Term_aer := stateCurrentTerm s3\<rparr>))
         else Inr (s1, response))"

text \<open>Lines 72 to 79: does the previous-log check reject the request?\<close>

definition prevLogMismatch :: "Server \<Rightarrow> AppendEntriesRequest \<Rightarrow> bool" where
  "prevLogMismatch s request =
     (PrevLogIndex_ae request > 0 \<and>
      (case Entry (logStore s) (PrevLogIndex_ae request) of
         None \<Rightarrow> True
       | Some requestPrevLog \<Rightarrow> PrevLogTerm_ae request \<noteq> Term_meta (Meta_log requestPrevLog)))"

text \<open>
  Lines 81 to 106: the conflict scan, the truncation and the append. The truncation
  changes the log store only: the index kept in the server state stays as it was until
  \<open>appendLogs\<close> has stored entries. The result of \<open>appendLogs\<close> is dropped, as the
  handler drops it.
\<close>

definition ae_storeEntries :: "protoCodec \<Rightarrow> Server \<Rightarrow> Log list \<Rightarrow> panic + Server" where
  "ae_storeEntries pc s entries =
     (case entries of
        [] \<Rightarrow> Inr s
      | e0 # es \<Rightarrow>
          (let lli = lastLogIndex s
           in case (if Index_meta (Meta_log e0) \<le> lli then scanEntries (logStore s) lli 0 entries
                    else Inr (0, 0)) of
                Inl p \<Rightarrow> Inl p
              | Inr (firstAppendArrayIndex, firstCleanUpIndex) \<Rightarrow>
                  (let s1 = (if firstCleanUpIndex > 0
                             then s\<lparr>logStore := DeleteAfter (logStore s) firstCleanUpIndex\<rparr> else s);
                       bodies = map Body_log (drop firstAppendArrayIndex entries)
                   in Inr (fst (appendLogs pc s1 bodies)))))"

definition AppendEntries ::
  "protoCodec \<Rightarrow> Server \<Rightarrow> AppendEntriesRequest \<Rightarrow> panic + (Server \<times> AppendEntriesResponse)" where
  "AppendEntries pc s request =
     (let response = \<lparr>ServerId_aer = id_srv s, Term_aer = stateCurrentTerm s, Success_aer = False\<rparr>
      in if Term_ae request < stateCurrentTerm s then Inr (s, response)
         else
           (case ae_adoptTerm s request response of
              Inl p \<Rightarrow> Inl p
            | Inr (s1, response1) \<Rightarrow>
                if prevLogMismatch s1 request then Inr (s1, response1)
                else
                  (case ae_storeEntries pc s1 (Entries_ae request) of
                     Inl p \<Rightarrow> Inl p
                   | Inr s2 \<Rightarrow>
                       (let s3 = (if LeaderCommit_ae request > stateCommitIndex s2
                                  then alterCommitIndex s2 (LeaderCommit_ae request) else s2)
                        in Inr (s3, response1\<lparr>Success_aer := True\<rparr>)))))"

section \<open>Commit and apply\<close>

text \<open>
  Modelled from the spec: \<open>CommitTransition\<close> of the configuration store is not among
  the files at hand. It appends a final entry whose configuration has no next set and
  whose current set is the previous next set; as every log mutation it is submitted to
  the main loop's log-ops queue.
\<close>

definition CommitTransition :: "protoCodec \<Rightarrow> Server \<Rightarrow> Server" where
  "CommitTransition pc s =
     s\<lparr>logOpsCh := logOpsCh s @
          [[\<lparr>Type_body = CONFIGURATION,
             Data_body = Marshal pc \<lparr>Current_pb = NextConfig (confLatest s), Next_pb = None\<rparr>\<rparr>]]\<rparr>"

definition SetCommitted :: "Server \<Rightarrow> configuration \<Rightarrow> Server" where
  "SetCommitted s c = s\<lparr>confCommitted := c\<rparr>"

text \<open>
  The apply loop of \<open>commitAndApply\<close> over the indices \<open>firstIndex .. commitIndex\<close>: the
  state carries the commands applied, the accumulator is (commitTerm,
  lastConfigurationLog).
\<close>

fun applyLoop ::
  "Server \<Rightarrow> nat \<Rightarrow> nat \<times> Log option \<Rightarrow> nat list \<Rightarrow> panic + (Server \<times> nat \<times> Log option)" where
  "applyLoop s commitIndex (commitTerm, lastConf) [] = Inr (s, commitTerm, lastConf)"
| "applyLoop s commitIndex (commitTerm, lastConf) (i # is) =
     (case Entry (logStore s) i of
        None \<Rightarrow> Inl PanicLogGap
      | Some l \<Rightarrow>
          (let commitTerm1 = (if i = commitIndex then Term_meta (Meta_log l) else commitTerm)
           in case Type_body (Body_log l) of
                COMMAND \<Rightarrow>
                  applyLoop (s\<lparr>smApplied := smApplied s @ [Data_body (Body_log l)]\<rparr>)
                    commitIndex (commitTerm1, lastConf) is
              | CONFIGURATION \<Rightarrow> applyLoop s commitIndex (commitTerm1, Some l) is))"

definition commitConfiguration :: "protoCodec \<Rightarrow> Server \<Rightarrow> Log option \<Rightarrow> Server" where
  "commitConfiguration pc s lastConfigurationLog =
     (case lastConfigurationLog of
        None \<Rightarrow> s
      | Some l \<Rightarrow>
          (let latest = confLatest s;
               s1 = (if Joint latest \<and> LogIndex_conf latest = Index_meta (Meta_log l)
                     then CommitTransition pc s else s);
               pbc = (case Unmarshal pc (Data_body (Body_log l)) of
                        None \<Rightarrow> \<lparr>Current_pb = [], Next_pb = None\<rparr>
                      | Some c \<Rightarrow> c)
           in SetCommitted s1 (newConfiguration pbc (Index_meta (Meta_log l)))))"

definition commitAndApply :: "protoCodec \<Rightarrow> Server \<Rightarrow> nat \<Rightarrow> panic + Server" where
  "commitAndApply pc s commitIndex0 =
     (let commitIndex = (if commitIndex0 > lastLogIndex s then lastLogIndex s else commitIndex0);
          lastApplied = stateLastApplied s
      in if Index_meta lastApplied = commitIndex then Inr s
         else if Index_meta lastApplied > commitIndex then Inl PanicLastAppliedAboveCommit
         else
           (let s1 = s\<lparr>stateCommitIndex := commitIndex\<rparr>;
                firstIndex = u64 (Index_meta lastApplied + 1)
            in case applyLoop s1 commitIndex (0, None) [firstIndex..<Suc commitIndex] of
                 Inl p \<Rightarrow> Inl p
               | Inr (s2, commitTerm, lastConfigurationLog) \<Rightarrow>
                   Inr ((commitConfiguration pc s2 lastConfigurationLog)
                          \<lparr>stateLastApplied := \<lparr>Index_meta = commitIndex, Term_meta = commitTerm\<rparr>\<rparr>)))"

text \<open>The main loop's case for the commit channel: it takes one value and applies it.\<close>

definition mainLoopCommit :: "protoCodec \<Rightarrow> Server \<Rightarrow> panic + Server" where
  "mainLoopCommit pc s =
     (case commitCh s of
        [] \<Rightarrow> Inr s
      | commitIndex # rest \<Rightarrow> commitAndApply pc (s\<lparr>commitCh := rest\<rparr>) commitIndex)"

section \<open>Elections\<close>

text \<open>
  \<open>startElection\<close>: the term is incremented (a \<open>uint64\<close> addition), the server votes
  for itself, and the request sent to the peers is built from the last log entry. The
  result holds the server, the request and the response the server puts on the vote
  channel for itself.
\<close>

definition startElection :: "Server \<Rightarrow> Server \<times> RequestVoteRequest \<times> RequestVoteResponse" where
  "startElection s =
     (let s1 = alterTerm s (u64 (stateCurrentTerm s + 1));
          s2 = setLastVoteSummary s1 (stateCurrentTerm s1) (id_srv s1);
          (lastTerm, lastIndex) = LastTermIndex (logStore s2);
          request = \<lparr>Term_rv = stateCurrentTerm s2, CandidateId_rv = id_srv s2,
                     LastLogIndex_rv = lastIndex, LastLogTerm_rv = lastTerm\<rparr>
      in (s2, request,
          \<lparr>ServerId_rvr = id_srv s2, Term_rvr = stateCurrentTerm s2, Granted_rvr = True\<rparr>))"

definition wonElection :: "Server \<Rightarrow> Server" where
  "wonElection s =
     (let s1 = alterRole s Leader
      in alterLeader s1 (Peer_of (confLatest s1) (id_srv s1)))"

text \<open>
  The candidate loop, for the responses that arrive on the vote channel, in order: the
  arguments are the configuration read at the start, the server, \<open>currentVotes\<close>,
  \<open>nextVotes\<close> and the responses still to come. The loop ends when the role is no
  longer Candidate, at a return, or when the reselect flag is set.
\<close>

fun voteLoop ::
  "configuration \<Rightarrow> Server \<Rightarrow> nat \<Rightarrow> nat \<Rightarrow> RequestVoteResponse list \<Rightarrow> Server" where
  "voteLoop c s currentVotes nextVotes [] = s"
| "voteLoop c s currentVotes nextVotes (response # rest) =
     (if stateRole s \<noteq> Candidate then s
      else if Term_rvr response > stateCurrentTerm s then alterTerm s (Term_rvr response)
      else
        (let currentVotes1 = (if Contains (Current_conf c) (ServerId_rvr response)
                              then currentVotes + 1 else currentVotes);
             nextVotes1 = (if Joint c \<and> Contains (NextConfig c) (ServerId_rvr response)
                           then nextVotes + 1 else nextVotes)
         in if \<not> Joint c then
              (if currentVotes1 \<ge> Quorum (Current_conf c) then wonElection s
               else if shouldReselectLoop s then s
               else voteLoop c s currentVotes1 nextVotes1 rest)
            else
              (if currentVotes1 \<ge> Quorum (Current_conf c) \<and> nextVotes1 \<ge> Quorum (NextConfig c)
               then wonElection s
               else if shouldReselectLoop s then s
               else voteLoop c s currentVotes1 nextVotes1 rest)))"

text \<open>
  \<open>runLoopCandidate\<close>: the election is started and the vote channel is read. The
  channel delivers the responses of the peers that came in before the server's own
  response, the server's own response, and the responses that came in after it.
\<close>

definition runLoopCandidate ::
  "Server \<Rightarrow> RequestVoteResponse list \<Rightarrow> RequestVoteResponse list \<Rightarrow> Server" where
  "runLoopCandidate s before after =
     (let (s1, request, selfResponse) = startElection s;
          c = confLatest s1
      in voteLoop c s1 0 0 (before @ [selfResponse] @ after))"








section \<open>ApplyLog and Apply\<close>

text \<open>
  \<open>pb.ApplyLogResponse\<close>: its \<open>Response\<close> field is unset, an error text, or the
  metadata of the appended entry.
\<close>

datatype ApplyLogResponse =
    ApplyLogResponse_Unset
  | ApplyLogResponse_Error string
  | ApplyLogResponse_Meta LogMeta

text \<open>
  The handler. \<open>errNonLeader\<close> is the text of \<open>ErrNonLeader\<close>, a package-level error
  value declared outside the files at hand; \<open>applyResult\<close> is what the future returned
  by \<open>Apply\<close> yields on the leader.
\<close>

definition ApplyLog :: "string \<Rightarrow> string + LogMeta \<Rightarrow> Server \<Rightarrow> ApplyLogResponse" where
  "ApplyLog errNonLeader applyResult s =
     (if stateRole s \<noteq> Leader then ApplyLogResponse_Error errNonLeader
      else case applyResult of
             Inl err \<Rightarrow> ApplyLogResponse_Error err
           | Inr result \<Rightarrow> ApplyLogResponse_Meta result)"

text \<open>
  \<open>GRPCTransport.ApplyLog\<close>: a (response, error) pair; when the client call fails the
  response is nil.
\<close>

definition GRPCTransport_ApplyLog ::
  "string option \<Rightarrow> ApplyLogResponse \<Rightarrow> ApplyLogResponse option \<times> string option" where
  "GRPCTransport_ApplyLog tryClientErr r =
     (case tryClientErr of Some err \<Rightarrow> (None, Some err) | None \<Rightarrow> (Some r, None))"

text \<open>What a future is completed with: \<open>setResult (meta, err)\<close>.\<close>

type_synonym futureResult = "LogMeta option \<times> string option"

text \<open>
  The goroutine of the proxy path of \<open>Apply\<close>, given what the transport returned: the
  completions of the future, in order, and how the goroutine ends.
\<close>

definition Apply_proxy ::
  "ApplyLogResponse option \<times> string option \<Rightarrow> futureResult list \<times> (panic + unit)" where
  "Apply_proxy tr =
     (let (response, err) = tr;
          t1 = (case err of Some e \<Rightarrow> [(None, Some e)] | None \<Rightarrow> [])
      in case response of
           None \<Rightarrow> (t1, Inl NilPointerDereference)
         | Some r \<Rightarrow>
             (case r of
                ApplyLogResponse_Meta m \<Rightarrow> (t1 @ [(Some m, None)], Inr ())
              | ApplyLogResponse_Error e \<Rightarrow> (t1 @ [(None, Some e)], Inr ())
              | ApplyLogResponse_Unset \<Rightarrow> (t1, Inr ())))"

text \<open>
  \<open>Apply\<close>. On the leader the result of the internal append task completes the future;
  elsewhere the proxy goroutine runs.
\<close>

definition Apply ::
  "Server \<Rightarrow> string + LogMeta list \<Rightarrow> ApplyLogResponse option \<times> string option
     \<Rightarrow> futureResult list \<times> (panic + unit)" where
  "Apply s internalResult tr =
     (if stateRole s = Leader then
        (case internalResult of
           Inl err \<Rightarrow> ([(None, Some err)], Inr ())
         | Inr logMeta \<Rightarrow>
             (case logMeta of
                [] \<Rightarrow> ([], Inl PanicIndexOutOfRange)
              | m # ms \<Rightarrow> ([(Some m, None)], Inr ())))
      else Apply_proxy tr)"

section \<open>Serve\<close>

datatype serveResult = ServeError string | ServePanic panic | ServeRunning Server

text \<open>
  The loop of \<open>Serve\<close> over the peers of the latest configuration; \<open>selfRegistered\<close> is
  the flag of the source, which no branch of the loop assigns.
\<close>

fun selfRegisteredLoop :: "Server \<Rightarrow> bool \<Rightarrow> Peer list \<Rightarrow> panic + bool" where
  "selfRegisteredLoop s selfRegistered [] = Inr selfRegistered"
| "selfRegisteredLoop s selfRegistered (peer # peers) =
     (if id_srv s = Id_peer peer then
        (if endpoint_srv s \<noteq> Endpoint_peer peer then Inl PanicSameIdDifferentEndpoints
         else Inr selfRegistered)
      else selfRegisteredLoop s selfRegistered peers)"

text \<open>
  \<open>Serve\<close> up to the point where it starts the transport and the main loop and waits
  for the serve error: \<open>ServeRunning\<close> is that point.
\<close>

definition Serve :: "protoCodec \<Rightarrow> Server \<Rightarrow> serveResult" where
  "Serve pc s =
     (if serveFlag s \<noteq> 0 then ServeError ''Serve() can only be called once''
      else
        (let s0 = s\<lparr>serveFlag := 1\<rparr>;
             c = confLatest s0
         in if length (Peers c) > 0 then
              (case selfRegisteredLoop s0 False (Peers c) of
                 Inl p \<Rightarrow> ServePanic p
               | Inr selfRegistered \<Rightarrow>
                   if \<not> selfRegistered then ServePanic PanicNotInPeerList else ServeRunning s0)
            else
              (let configurationBytes =
                     Marshal pc \<lparr>Current_pb = [\<lparr>Id_peer = id_srv s0, Endpoint_peer = endpoint_srv s0\<rparr>],
                                 Next_pb = None\<rparr>
               in case appendLogs pc s0 [\<lparr>Type_body = CONFIGURATION, Data_body = configurationBytes\<rparr>] of
                    (s1, Inl err) \<Rightarrow> ServePanic PanicBootstrap
                  | (s1, Inr logMeta) \<Rightarrow> ServeRunning s1)))"

section \<open>The key-value state machine\<close>

record StateMachine =
  index_sm :: nat
  term_sm :: nat
  states_sm :: "string \<rightharpoonup> string"

record KVSMSnapshot =
  index_snap :: nat
  term_snap :: nat
  keyValues_snap :: "string \<rightharpoonup> string"

definition NewStateMachine :: StateMachine where
  "NewStateMachine = \<lparr>index_sm = 0, term_sm = 0, states_sm = Map.empty\<rparr>"

text \<open>\<open>Snapshot\<close> copies every value into a fresh byte slice.\<close>

definition Snapshot_sm :: "StateMachine \<Rightarrow> KVSMSnapshot" where
  "Snapshot_sm m =
     \<lparr>index_snap = index_sm m, term_snap = term_sm m,
      keyValues_snap = (\<lambda>key. map_option (\<lambda>v. [] @ v) (states_sm m key))\<rparr>"

text \<open>
  The msgpack codec is an external library: \<open>enc\<close> and \<open>dec\<close> are parameters. A sink is
  the list of the byte strings written to it, in order. \<open>Write\<close> lets the encoder write
  the encoded map to the sink and then writes \<open>out\<close>, a slice that was never filled.
\<close>

definition Write_snap ::
  "((string \<rightharpoonup> string) \<Rightarrow> string) \<Rightarrow> KVSMSnapshot \<Rightarrow> string list \<Rightarrow> string list" where
  "Write_snap enc snap sink =
     (let out = [];
          sink1 = sink @ [enc (keyValues_snap snap)]
      in sink1 @ [out])"

datatype restoreError = ErrReader string | ErrDecode

text \<open>
  \<open>Restore\<close> decodes the bytes of the snapshot's reader into an empty map and makes it
  the state.
\<close>

definition Restore_sm ::
  "(string \<Rightarrow> (string \<rightharpoonup> string) option) \<Rightarrow> StateMachine \<Rightarrow> string + string
     \<Rightarrow> StateMachine \<times> restoreError option" where
  "Restore_sm dec m snapshotReader =
     (let keyValues = Map.empty
      in case snapshotReader of
           Inl err \<Rightarrow> (m, Some (ErrReader err))
         | Inr bytes \<Rightarrow>
             (case dec bytes of
                None \<Rightarrow> (m, Some ErrDecode)
              | Some decoded \<Rightarrow> (m\<lparr>states_sm := keyValues ++ decoded\<rparr>, None)))"

section \<open>Example states\<close>

text \<open>
  A codec that decodes nothing, a command entry, a three-node cluster and a follower
  \<open>B\<close> of it at term 2 with an empty log: the concrete inputs of the evaluations below.
\<close>

definition exCodec :: protoCodec where
  "exCodec = \<lparr>Marshal = (\<lambda>c. []), Unmarshal = (\<lambda>b. None)\<rparr>"

definition exEntry :: "nat \<Rightarrow> nat \<Rightarrow> string \<Rightarrow> Log" where
  "exEntry i t d = \<lparr>Meta_log = \<lparr>Index_meta = i, Term_meta = t\<rparr>,
                    Body_log = \<lparr>Type_body = COMMAND, Data_body = d\<rparr>\<rparr>"

definition exPeers :: "Peer list" where
  "exPeers = [\<lparr>Id_peer = ''A'', Endpoint_peer = ''a:1''\<rparr>,
              \<lparr>Id_peer = ''B'', Endpoint_peer = ''b:1''\<rparr>,
              \<lparr>Id_peer = ''C'', Endpoint_peer = ''c:1''\<rparr>]"

definition exServer :: Server where
  "exServer =
     \<lparr>id_srv = ''B'', endpoint_srv = ''b:1'', serveFlag = 1, stateRole = Follower,
      stateCurrentTerm = 2, stateLastVoteSummary = \<lparr>term_vote = 0, candidate_vote = []\<rparr>,
      clusterLeader = None, logStore = [], stateFirstLogIndex = 0, stateLastLogIndex = 0,
      stateCommitIndex = 0, stateLastApplied = \<lparr>Index_meta = 0, Term_meta = 0\<rparr>,
      commitCh = [], logOpsCh = [],
      confLatest = \<lparr>Current_conf = exPeers, Next_conf = None, LogIndex_conf = 0\<rparr>,
      confCommitted = \<lparr>Current_conf = exPeers, Next_conf = None, LogIndex_conf = 0\<rparr>,
      smApplied = [], flagReselectLoop = 0\<rparr>"

text \<open>
  Follower \<open>B\<close> after its log has been trimmed up to index 4: the store holds the
  entries 5 and 6, of which entry 5 is committed and applied.
\<close>

definition exTrimmed :: Server where
  "exTrimmed =
     exServer\<lparr>logStore := [exEntry 5 1 ''e'', exEntry 6 1 ''f''],
              stateFirstLogIndex := 5, stateLastLogIndex := 6,
              stateCommitIndex := 5, stateLastApplied := \<lparr>Index_meta = 5, Term_meta = 1\<rparr>\<rparr>"

text \<open>Follower \<open>B\<close> holding one entry, of term 1.\<close>

definition exOneEntry :: Server where
  "exOneEntry =
     exServer\<lparr>logStore := [exEntry 1 1 ''a''], stateFirstLogIndex := 1, stateLastLogIndex := 1\<rparr>"

lemmas ex_defs = exServer_def exEntry_def exCodec_def exPeers_def

lemmas ae_defs = AppendEntries_def ae_adoptTerm_def prevLogMismatch_def ae_storeEntries_def
  appendLogs_def setFirstLogIndex_def setLastLogIndex_def lastConfLog_def
  lastLogIndex_def FirstIndex_def LastIndex_def Entry_def DeleteAfter_def AppendLogs_def
  alterLeader_def setLeader_def Server_Leader_def nilPeer_def Peer_of_def Peers_def
  NextConfig_def Contains_def alterTerm_def alterCommitIndex_def stepdownFollower_def u64_def

lemmas el_defs = runLoopCandidate_def startElection_def wonElection_def alterRole_def
  alterLeader_def setLeader_def alterTerm_def setLastVoteSummary_def LastTermIndex_def
  Contains_def Quorum_def Joint_def NextConfig_def shouldReselectLoop_def Peer_of_def Peers_def u64_def

section \<open>Stored entries do not keep the request's index and term\<close>

text \<open>
  C1. The claim: every entry a successful AppendEntries appends is stored at the
  entry's request index with the entry's request term. The handler hands only the
  bodies to \<open>appendLogs\<close>, which stamps them with \<open>lastLogIndex + 1 + i\<close> and the
  server's current term. Evaluated on follower \<open>B\<close> (term 2, empty log): a leader of
  term 2 sends the entry (index 1, term 1) and the entry is stored as (index 1, term 2);
  a request whose only entry is (index 5, term 2) is stored as (index 1, term 2). Both
  requests succeed.
\<close>

theorem C1_appended_entry_restamped:
  "AppendEntries exCodec exServer
     \<lparr>Term_ae = 2, LeaderId_ae = ''A'', PrevLogIndex_ae = 0, PrevLogTerm_ae = 0,
      Entries_ae = [exEntry 1 1 ''x''], LeaderCommit_ae = 0\<rparr>
   = Inr (exServer\<lparr>clusterLeader := Some \<lparr>Id_peer = ''A'', Endpoint_peer = ''a:1''\<rparr>,
                    logStore := [exEntry 1 2 ''x''],
                    stateFirstLogIndex := 1, stateLastLogIndex := 1\<rparr>,
          \<lparr>ServerId_aer = ''B'', Term_aer = 2, Success_aer = True\<rparr>)
   \<and> AppendEntries exCodec exServer
     \<lparr>Term_ae = 2, LeaderId_ae = ''A'', PrevLogIndex_ae = 0, PrevLogTerm_ae = 0,
      Entries_ae = [exEntry 5 2 ''x''], LeaderCommit_ae = 0\<rparr>
   = Inr (exServer\<lparr>clusterLeader := Some \<lparr>Id_peer = ''A'', Endpoint_peer = ''a:1''\<rparr>,
                    logStore := [exEntry 1 2 ''x''],
                    stateFirstLogIndex := 1, stateLastLogIndex := 1\<rparr>,
          \<lparr>ServerId_aer = ''B'', Term_aer = 2, Success_aer = True\<rparr>)"
  by (simp add: ae_defs ex_defs Let_def)

section \<open>The candidate loop counts responses, not granted votes\<close>

text \<open>
  C2. The claim: the candidate becomes leader only when the granted votes reach a
  strict majority. The loop never reads \<open>Granted\<close>: every response of a member counts.
  Evaluated on candidate \<open>A\<close> of the cluster {A, B, C} (quorum 2): the election is
  started, the server's own response arrives, then the response of \<open>B\<close>, of the same
  term, with \<open>Granted = false\<close>; the server becomes leader on one granted vote.
\<close>

theorem C2_leader_without_granted_majority:
  "stateRole
     (runLoopCandidate (exServer\<lparr>id_srv := ''A'', endpoint_srv := ''a:1'', stateRole := Candidate\<rparr>) []
        [\<lparr>ServerId_rvr = ''B'', Term_rvr = 3, Granted_rvr = False\<rparr>]) = Leader
   \<and> length (filter Granted_rvr
        [snd (snd (startElection (exServer\<lparr>id_srv := ''A'', endpoint_srv := ''a:1'', stateRole := Candidate\<rparr>))),
         \<lparr>ServerId_rvr = ''B'', Term_rvr = 3, Granted_rvr = False\<rparr>]) = 1
   \<and> Quorum (Current_conf (confLatest exServer)) = 2"
  by (simp add: el_defs ex_defs Let_def)

section \<open>ApplyLog on a server that is not the leader\<close>

text \<open>
  C6, as claimed, fails: the reply of a server that is not the leader is the same
  whoever the known leader is, so it does not carry the leader's id. Two followers that
  differ only in the leader they know (\<open>A\<close>, \<open>C\<close>) give the same reply.
\<close>

theorem C6_counterexample:
  "ApplyLog ''not leader'' (Inr \<lparr>Index_meta = 1, Term_meta = 1\<rparr>)
     (exServer\<lparr>clusterLeader := Some \<lparr>Id_peer = ''A'', Endpoint_peer = ''a:1''\<rparr>\<rparr>)
   = ApplyLog ''not leader'' (Inr \<lparr>Index_meta = 1, Term_meta = 1\<rparr>)
     (exServer\<lparr>clusterLeader := Some \<lparr>Id_peer = ''C'', Endpoint_peer = ''c:1''\<rparr>\<rparr>)
   \<and> Id_peer (Server_Leader (exServer\<lparr>clusterLeader := Some \<lparr>Id_peer = ''A'', Endpoint_peer = ''a:1''\<rparr>\<rparr>))
     \<noteq> Id_peer (Server_Leader (exServer\<lparr>clusterLeader := Some \<lparr>Id_peer = ''C'', Endpoint_peer = ''c:1''\<rparr>\<rparr>))
   \<and> stateRole exServer \<noteq> Leader"
  by (simp add: ApplyLog_def Server_Leader_def ex_defs)

text \<open>
  C6, amended. For every ApplyLog request handled by a server whose role is not Leader,
  the reply is an error reply that holds the text of \<open>ErrNonLeader\<close> and nothing else:
  it is the same for every known leader, every request and every state.
\<close>

theorem C6_non_leader_reply:
  "stateRole s \<noteq> Leader \<Longrightarrow> ApplyLog errNonLeader applyResult s = ApplyLogResponse_Error errNonLeader"
  by (simp add: ApplyLog_def)

theorem C6_witness:
  "stateRole exServer \<noteq> Leader
   \<and> ApplyLog ''not leader'' (Inr \<lparr>Index_meta = 1, Term_meta = 1\<rparr>) exServer
     = ApplyLogResponse_Error ''not leader''"
  using C6_non_leader_reply [of exServer "''not leader''" "Inr \<lparr>Index_meta = 1, Term_meta = 1\<rparr>"]
  by (simp add: ex_defs)

section \<open>The proxy path of Apply\<close>

text \<open>
  C10. On a server that is not the leader, when the transport's ApplyLog call fails
  (it then returns a nil response and the error), the future is completed with the
  error, once, and the goroutine goes on to read a field of the nil response: it ends
  in a nil pointer dereference.
\<close>

theorem C10_proxy_error_then_nil_dereference:
  "stateRole s \<noteq> Leader \<Longrightarrow>
   Apply s internalResult (GRPCTransport_ApplyLog (Some err) r)
     = ([(None, Some err)], Inl NilPointerDereference)"
  by (simp add: Apply_def Apply_proxy_def GRPCTransport_ApplyLog_def)

theorem C10_witness:
  "stateRole exServer \<noteq> Leader
   \<and> Apply exServer (Inr []) (GRPCTransport_ApplyLog (Some ''unavailable'') ApplyLogResponse_Unset)
     = ([(None, Some ''unavailable'')], Inl NilPointerDereference)"
  using C10_proxy_error_then_nil_dereference
    [of exServer "Inr []" "''unavailable''" ApplyLogResponse_Unset]
  by (simp add: ex_defs)

section \<open>Serve on a server with a configured peer list\<close>

text \<open>
  C9, as claimed, fails on two inputs. A second call of \<open>Serve\<close> returns the error
  "Serve() can only be called once" before the peer list is read. And when the first
  peer with the server's id has another endpoint, \<open>Serve\<close> panics in the loop, on the
  endpoint check, and never reaches the branch that reports the server as absent.
\<close>

theorem C9_counterexample:
  "Serve exCodec exServer = ServeError ''Serve() can only be called once''
   \<and> Peers (confLatest exServer) \<noteq> []
   \<and> Serve exCodec (exServer\<lparr>serveFlag := 0, endpoint_srv := ''b:2''\<rparr>)
     = ServePanic PanicSameIdDifferentEndpoints"
  by (simp add: Serve_def Peers_def NextConfig_def Contains_def ex_defs)

text \<open>
  C9, amended. For every first call of \<open>Serve\<close> on a server whose latest configuration
  has a non-empty peer list in which the first peer with the server's id, if there is
  one, has the server's endpoint, \<open>Serve\<close> panics with the report that the server is
  not in the peer list: \<open>selfRegistered\<close> is never set.
\<close>

lemma selfRegisteredLoop_matching:
  "(case find (\<lambda>p. Id_peer p = id_srv s) peers of
      None \<Rightarrow> True | Some p \<Rightarrow> Endpoint_peer p = endpoint_srv s)
   \<Longrightarrow> selfRegisteredLoop s b peers = Inr b"
  by (induction peers) auto

theorem C9_serve_never_registers_itself:
  assumes "serveFlag s = 0"
    and "Peers (confLatest s) \<noteq> []"
    and "case find (\<lambda>p. Id_peer p = id_srv s) (Peers (confLatest s)) of
           None \<Rightarrow> True | Some p \<Rightarrow> Endpoint_peer p = endpoint_srv s"
  shows "Serve pc s = ServePanic PanicNotInPeerList"
proof -
  have "selfRegisteredLoop (s\<lparr>serveFlag := 1\<rparr>) False (Peers (confLatest s)) = Inr False"
    using assms(3)
      selfRegisteredLoop_matching [of "s\<lparr>serveFlag := 1\<rparr>" "Peers (confLatest s)" False]
    by (simp cong: option.case_cong)
  then show ?thesis
    using assms(1,2) by (simp add: Serve_def Let_def)
qed

theorem C9_witness:
  "serveFlag (exServer\<lparr>serveFlag := 0\<rparr>) = 0
   \<and> find (\<lambda>p. Id_peer p = id_srv exServer) (Peers (confLatest exServer))
     = Some \<lparr>Id_peer = ''B'', Endpoint_peer = ''b:1''\<rparr>
   \<and> endpoint_srv exServer = ''b:1''
   \<and> Serve exCodec (exServer\<lparr>serveFlag := 0\<rparr>) = ServePanic PanicNotInPeerList"
  using C9_serve_never_registers_itself [of "exServer\<lparr>serveFlag := 0\<rparr>" exCodec]
  by (simp add: Peers_def NextConfig_def Contains_def ex_defs)

section \<open>Snapshot and restore of the key-value state machine\<close>

text \<open>
  C8. Where the codec decodes what it encoded of the state's map, writing the snapshot
  of a state machine to an empty sink leaves in the sink the encoded map followed by
  one empty write, so the bytes of the sink are the encoded map, once; and restoring a
  fresh state machine from these bytes succeeds and gives it the map of the original.
  The snapshot carries the index and term of the original.
\<close>

lemma Snapshot_sm_keyValues: "keyValues_snap (Snapshot_sm m) = states_sm m"
  by (rule ext) (simp add: Snapshot_sm_def option.map_ident)

theorem C8_snapshot_restore_round_trip:
  assumes "dec (enc (states_sm m)) = Some (states_sm m)"
  shows "Write_snap enc (Snapshot_sm m) [] = [enc (states_sm m), []]
     \<and> concat (Write_snap enc (Snapshot_sm m) []) = enc (states_sm m)
     \<and> index_snap (Snapshot_sm m) = index_sm m
     \<and> term_snap (Snapshot_sm m) = term_sm m
     \<and> Restore_sm dec NewStateMachine (Inr (concat (Write_snap enc (Snapshot_sm m) [])))
         = (NewStateMachine\<lparr>states_sm := states_sm m\<rparr>, None)"
  using assms
  by (simp add: Write_snap_def Restore_sm_def Snapshot_sm_keyValues Let_def)
     (simp add: Snapshot_sm_def)

theorem C8_witness:
  "Restore_sm (\<lambda>b. if b = ''x=1'' then Some [''x'' \<mapsto> ''1''] else None) NewStateMachine
     (Inr (concat (Write_snap (\<lambda>kv. ''x=1'')
        (Snapshot_sm \<lparr>index_sm = 2, term_sm = 1, states_sm = [''x'' \<mapsto> ''1'']\<rparr>) [])))
   = (NewStateMachine\<lparr>states_sm := [''x'' \<mapsto> ''1'']\<rparr>, None)"
  using C8_snapshot_restore_round_trip
    [of "\<lambda>b. if b = ''x=1'' then Some [''x'' \<mapsto> ''1''] else None" "\<lambda>kv. ''x=1''"
        "\<lparr>index_sm = 2, term_sm = 1, states_sm = [''x'' \<mapsto> ''1'']\<rparr>"]
  by (simp add: Write_snap_def Snapshot_sm_keyValues)

section \<open>Vote uniqueness\<close>
















section \<open>The commit index after AppendEntries\<close>

text \<open>
  C4. The claim: every AppendEntries request that passes the term check and the
  previous-log check, and whose leaderCommit is above the commit index, triggers the
  commit-and-apply step, which leaves the commit index at min(leaderCommit,
  lastLogIndex). Between the two checks and the commit step the handler scans the
  incoming entries whose index is not above lastLogIndex and reads the term of the
  local entry at each such index, without the nil check that the previous-log check
  makes on the same kind of read. Evaluated on follower \<open>B\<close> with the trimmed log 5..6
  (commit index 5, lastLogIndex 6): a leader of term 2 sends, with no previous entry,
  the entry of index 1 and leaderCommit 7. The request passes both checks, the store
  has no entry 1, and the handler ends in a nil pointer dereference: nothing is put on
  the commit channel, no commit-and-apply step follows, and the commit index is not
  raised to 6.
\<close>

theorem C4_nil_dereference_before_commit:
  "\<not> Term_ae \<lparr>Term_ae = 2, LeaderId_ae = ''A'', PrevLogIndex_ae = 0, PrevLogTerm_ae = 0,
               Entries_ae = [exEntry 1 1 ''a''], LeaderCommit_ae = 7\<rparr> < stateCurrentTerm exTrimmed
   \<and> \<not> prevLogMismatch exTrimmed
         \<lparr>Term_ae = 2, LeaderId_ae = ''A'', PrevLogIndex_ae = 0, PrevLogTerm_ae = 0,
          Entries_ae = [exEntry 1 1 ''a''], LeaderCommit_ae = 7\<rparr>
   \<and> stateCommitIndex exTrimmed = 5
   \<and> lastLogIndex exTrimmed = 6
   \<and> AppendEntries exCodec exTrimmed
       \<lparr>Term_ae = 2, LeaderId_ae = ''A'', PrevLogIndex_ae = 0, PrevLogTerm_ae = 0,
        Entries_ae = [exEntry 1 1 ''a''], LeaderCommit_ae = 7\<rparr>
     = Inl NilPointerDereference"
  by (simp add: ae_defs ex_defs exTrimmed_def Let_def)

section \<open>Handling the same AppendEntries request twice\<close>

text \<open>
  C7. The claim: handling the same AppendEntries request a second time, with nothing
  in between, leaves the log as the first handling left it. It fails by the restamping
  of C1. Evaluated on follower \<open>B\<close> at term 2 holding the entry (index 1, term 1): a
  leader of term 2 sends, after the previous entry (index 1, term 1), the entry (index
  2, term 1). The first handling stores it as (index 2, term 2). The second handling
  finds term 2 at index 2 where the request says term 1, truncates the log from index
  2 and stores the body again, stamped from the last index the server state still
  keeps, 2: the log holds the entries 1 and 3. And on follower \<open>B\<close> with an empty log,
  the request whose only entry is (index 5, term 2) is stored as entry 1 by the first
  handling and once more, as entry 2, by the second. All four calls succeed.
\<close>

theorem C7_same_request_twice_changes_log:
  "AppendEntries exCodec exOneEntry
     \<lparr>Term_ae = 2, LeaderId_ae = ''A'', PrevLogIndex_ae = 1, PrevLogTerm_ae = 1,
      Entries_ae = [exEntry 2 1 ''b''], LeaderCommit_ae = 0\<rparr>
   = Inr (exOneEntry\<lparr>clusterLeader := Some \<lparr>Id_peer = ''A'', Endpoint_peer = ''a:1''\<rparr>,
                      logStore := [exEntry 1 1 ''a'', exEntry 2 2 ''b''],
                      stateFirstLogIndex := 1, stateLastLogIndex := 2\<rparr>,
          \<lparr>ServerId_aer = ''B'', Term_aer = 2, Success_aer = True\<rparr>)
   \<and> AppendEntries exCodec
       (exOneEntry\<lparr>clusterLeader := Some \<lparr>Id_peer = ''A'', Endpoint_peer = ''a:1''\<rparr>,
                   logStore := [exEntry 1 1 ''a'', exEntry 2 2 ''b''],
                   stateFirstLogIndex := 1, stateLastLogIndex := 2\<rparr>)
       \<lparr>Term_ae = 2, LeaderId_ae = ''A'', PrevLogIndex_ae = 1, PrevLogTerm_ae = 1,
        Entries_ae = [exEntry 2 1 ''b''], LeaderCommit_ae = 0\<rparr>
     = Inr (exOneEntry\<lparr>clusterLeader := Some \<lparr>Id_peer = ''A'', Endpoint_peer = ''a:1''\<rparr>,
                        logStore := [exEntry 1 1 ''a'', exEntry 3 2 ''b''],
                        stateFirstLogIndex := 1, stateLastLogIndex := 3\<rparr>,
            \<lparr>ServerId_aer = ''B'', Term_aer = 2, Success_aer = True\<rparr>)
   \<and> AppendEntries exCodec exServer
       \<lparr>Term_ae = 2, LeaderId_ae = ''A'', PrevLogIndex_ae = 0, PrevLogTerm_ae = 0,
        Entries_ae = [exEntry 5 2 ''x''], LeaderCommit_ae = 0\<rparr>
     = Inr (exServer\<lparr>clusterLeader := Some \<lparr>Id_peer = ''A'', Endpoint_peer = ''a:1''\<rparr>,
                      logStore := [exEntry 1 2 ''x''],
                      stateFirstLogIndex := 1, stateLastLogIndex := 1\<rparr>,
            \<lparr>ServerId_aer = ''B'', Term_aer = 2, Success_aer = True\<rparr>)
   \<and> AppendEntries exCodec
       (exServer\<lparr>clusterLeader := Some \<lparr>Id_peer = ''A'', Endpoint_peer = ''a:1''\<rparr>,
                 logStore := [exEntry 1 2 ''x''],
                 stateFirstLogIndex := 1, stateLastLogIndex := 1\<rparr>)
       \<lparr>Term_ae = 2, LeaderId_ae = ''A'', PrevLogIndex_ae = 0, PrevLogTerm_ae = 0,
        Entries_ae = [exEntry 5 2 ''x''], LeaderCommit_ae = 0\<rparr>
     = Inr (exServer\<lparr>clusterLeader := Some \<lparr>Id_peer = ''A'', Endpoint_peer = ''a:1''\<rparr>,
                      logStore := [exEntry 1 2 ''x'', exEntry 2 2 ''x''],
                      stateFirstLogIndex := 1, stateLastLogIndex := 2\<rparr>,
            \<lparr>ServerId_aer = ''B'', Term_aer = 2, Success_aer = True\<rparr>)"
  by (simp add: ae_defs ex_defs exOneEntry_def Let_def)

end
